theory Spec2Isabelle
  imports Complex_Main "HOL-Library.AList" "HOL-Library.Sublist"
begin

section \<open>The browser: local storage, router and network\<close>

text \<open>
  The views are Vue components. Each handler is modelled as a function from the
  component's data and the browser to the component's data and the browser after the
  handler has run to completion. What the handler does to the outside world is recorded,
  in order, in \<open>events\<close>: every \<^verbatim>\<open>fetch\<close>, every write to \<^verbatim>\<open>localStorage\<close> and every
  \<^verbatim>\<open>this.$router.push\<close>. What the outside world answers to a \<^verbatim>\<open>fetch\<close> is an argument
  of the handler, one per call it can make, so that every theorem holds for every answer.
\<close>

text \<open>
  A primitive JavaScript value, as the form fields and the members of a JSON payload
  hold them. A finite double is a rational number; \<^verbatim>\<open>NaN\<close> is not produced by
  \<^verbatim>\<open>JSON.parse\<close> nor by \<^verbatim>\<open>v-model.number\<close>, the only sources of numbers here.
\<close>

datatype jsval = Null | Bool bool | Num rat | Str string

text \<open>\<^verbatim>\<open>Boolean(v)\<close>, the test behind \<^verbatim>\<open>!v\<close> and \<^verbatim>\<open>v || w\<close>.\<close>

fun truthy :: "jsval \<Rightarrow> bool" where
  "truthy Null = False"
| "truthy (Bool b) = b"
| "truthy (Num r) = (r \<noteq> 0)"
| "truthy (Str s) = (s \<noteq> [])"

text \<open>\<^verbatim>\<open>v || w\<close>\<close>

definition js_or :: "jsval \<Rightarrow> jsval \<Rightarrow> jsval" where
  "js_or v w = (if truthy v then v else w)"

datatype http_method = GET | POST | PUT | PATCH

text \<open>
  The URLs the views call, all under \<^verbatim>\<open>http://127.0.0.1:8000\<close>. A template literal
  keeps the value it interpolates:
  \<^item> \<open>Inventory_products_query b\<close> is \<^verbatim>\<open>/inventory/products?include_inactive=${b}\<close>,
  \<^item> \<open>Inventory_product i\<close> is \<^verbatim>\<open>/inventory/products/${i}\<close> (\<open>None\<close> is \<^verbatim>\<open>null\<close>),
  \<^item> \<open>Inventory_product_deactivate i\<close> is \<^verbatim>\<open>/inventory/products/${i}/deactivate\<close>.
\<close>

datatype url =
    Auth_login
  | Auth_me
  | Inventory_catalogs
  | Inventory_products_query bool
  | Inventory_products
  | Inventory_product "int option"
  | Inventory_product_deactivate int
  | Inventory_lineas
  | Inventory_segmentos

text \<open>
  The argument of \<^verbatim>\<open>fetch\<close>. \<open>body\<close> is the object handed to \<^verbatim>\<open>JSON.stringify\<close>, as the
  list of its members in order; \<open>None\<close> where the call has no body.
\<close>

record request =
  req_method :: http_method
  url :: url
  authorization :: "string option"
  content_type :: "string option"
  body :: "(string \<times> jsval) list option"

text \<open>
  What \<^verbatim>\<open>await fetch(...)\<close> gives: the promise rejects (\<open>Network_failure\<close>), or it
  resolves to a response with its \<^verbatim>\<open>ok\<close> flag. \<open>json\<close> is what \<^verbatim>\<open>await res.json()\<close> gives
  on that response: a value of the shape the endpoint returns, or \<open>None\<close> when the body
  is not JSON and the promise rejects. The views read the bodies without checking them;
  a JSON body of another shape than the endpoint's is outside the model.
\<close>

datatype 'a fetch_result = Network_failure | Response (ok: bool) (json: "'a option")

datatype event =
    Fetch request
  | SetItem string string
  | RemoveItem string
  | Push string

record browser =
  localStorage :: "string \<rightharpoonup> string"
  events :: "event list"

definition fetch :: "request \<Rightarrow> browser \<Rightarrow> browser" where
  "fetch rq b = b\<lparr>events := events b @ [Fetch rq]\<rparr>"

definition getItem :: "string \<Rightarrow> browser \<Rightarrow> string option" where
  "getItem k b = localStorage b k"

definition setItem :: "string \<Rightarrow> string \<Rightarrow> browser \<Rightarrow> browser" where
  "setItem k v b = b\<lparr>localStorage := (localStorage b)(k \<mapsto> v), events := events b @ [SetItem k v]\<rparr>"

definition removeItem :: "string \<Rightarrow> browser \<Rightarrow> browser" where
  "removeItem k b = b\<lparr>localStorage := (localStorage b)(k := None), events := events b @ [RemoveItem k]\<rparr>"

definition push :: "string \<Rightarrow> browser \<Rightarrow> browser" where
  "push path b = b\<lparr>events := events b @ [Push path]\<rparr>"

text \<open>
  \<^verbatim>\<open>!token\<close> for the result of \<^verbatim>\<open>getItem\<close>: \<^verbatim>\<open>null\<close> and the empty string are falsy.
\<close>

definition no_token :: "string option \<Rightarrow> bool" where
  "no_token t = (case t of None \<Rightarrow> True | Some s \<Rightarrow> s = [])"

text \<open>
  \<^verbatim>\<open>`Bearer ${token}`\<close>: a \<^verbatim>\<open>null\<close> token is interpolated as the text \<^verbatim>\<open>null\<close>.
\<close>

definition bearer :: "string option \<Rightarrow> string" where
  "bearer t = ''Bearer '' @ (case t of None \<Rightarrow> ''null'' | Some s \<Rightarrow> s)"

definition is_fetch :: "event \<Rightarrow> bool" where
  "is_fetch e = (case e of Fetch _ \<Rightarrow> True | _ \<Rightarrow> False)"


section \<open>Login.vue\<close>

record login_view =
  email :: string
  password :: string
  remember :: bool
  error :: "string option"
  phraseIndex :: nat

text \<open>The body of a successful answer of \<^verbatim>\<open>/auth/login\<close>.\<close>

datatype login_data = Login_data (access_token: string)

definition login_request :: "login_view \<Rightarrow> request" where
  "login_request v =
     \<lparr>req_method = POST, url = Auth_login, authorization = None,
      content_type = Some ''application/json'',
      body = Some [(''email'', Str (email v)), (''password'', Str (password v))]\<rparr>"

text \<open>
  \<^verbatim>\<open>login()\<close>. The whole body is inside \<^verbatim>\<open>try\<close>, so a rejected \<^verbatim>\<open>fetch\<close> and a rejected
  \<^verbatim>\<open>res.json()\<close> both end in the \<^verbatim>\<open>catch\<close> branch.
\<close>

definition login :: "login_data fetch_result \<Rightarrow> login_view \<times> browser \<Rightarrow> login_view \<times> browser" where
  "login res = (\<lambda>(v, b).
     let b1 = fetch (login_request v) b in
     case res of
       Network_failure \<Rightarrow> (v\<lparr>error := Some ''Error de conexion''\<rparr>, b1)
     | Response res_ok js \<Rightarrow>
         if \<not> res_ok then (v\<lparr>error := Some ''Credenciales incorrectas''\<rparr>, b1)
         else (case js of
                 None \<Rightarrow> (v\<lparr>error := Some ''Error de conexion''\<rparr>, b1)
               | Some data \<Rightarrow> (v, push ''/home'' (setItem ''token'' (access_token data) b1))))"


section \<open>Home.vue\<close>

text \<open>The body of a successful answer of \<^verbatim>\<open>/auth/me\<close>.\<close>

datatype role_json = Role (role_name: string)

datatype branch = Branch (code: string) (name: string)

datatype me =
  Me (full_name: "string option") (me_email: string)
     (roles: "role_json list option") (me_branches: "branch list option")

record home_view =
  displayName :: string
  role :: "string option"
  branches :: "branch list"
  activeBranch :: "branch option"
  accessError :: "string option"

text \<open>\<^verbatim>\<open>data()\<close>\<close>

definition home_data :: home_view where
  "home_data =
     \<lparr>displayName = ''Usuario'', role = None, branches = [],
      activeBranch = Some (Branch [] []), accessError = None\<rparr>"

text \<open>\<^verbatim>\<open>xs[0]\<close>: \<^verbatim>\<open>undefined\<close> on the empty array.\<close>

definition first :: "'a list \<Rightarrow> 'a option" where
  "first xs = (case xs of [] \<Rightarrow> None | x # _ \<Rightarrow> Some x)"

definition roleLabel :: "home_view \<Rightarrow> string" where
  "roleLabel v = (if role v = Some ''administrador'' then ''Administrador'' else ''Usuario'')"

definition canChooseBranch :: "home_view \<Rightarrow> bool" where
  "canChooseBranch v =
     (case role v of None \<Rightarrow> False | Some r \<Rightarrow> List.member [''administrador'', ''seguridad''] r)"

definition logout :: "home_view \<times> browser \<Rightarrow> home_view \<times> browser" where
  "logout = (\<lambda>(v, b). (v, push ''/login'' (removeItem ''token'' b)))"

definition me_request :: "string option \<Rightarrow> request" where
  "me_request token =
     \<lparr>req_method = GET, url = Auth_me, authorization = Some (bearer token),
      content_type = None, body = None\<rparr>"

text \<open>\<^verbatim>\<open>(data.roles || []).map((role) => role.name)\<close>\<close>

definition roleNames :: "me \<Rightarrow> string list" where
  "roleNames data = map role_name (case roles data of None \<Rightarrow> [] | Some rs \<Rightarrow> rs)"

text \<open>
  The assignments of \<^verbatim>\<open>mounted\<close> between \<^verbatim>\<open>await res.json()\<close> and the role test:
  \<^verbatim>\<open>data.full_name || data.email\<close>, \<^verbatim>\<open>roleNames[0] || "usuario"\<close>, the branches of the
  answer or the default one, and the first of them.
\<close>

definition load_profile :: "me \<Rightarrow> home_view \<Rightarrow> home_view" where
  "load_profile data v =
     (let bs = (case me_branches data of
                  None \<Rightarrow> [Branch ''central'' ''Central'']
                | Some [] \<Rightarrow> [Branch ''central'' ''Central'']
                | Some (x # xs) \<Rightarrow> map (\<lambda>br. Branch (code br) (name br)) (x # xs))
      in v\<lparr>displayName := (case full_name data of
                              None \<Rightarrow> me_email data
                            | Some n \<Rightarrow> if n \<noteq> [] then n else me_email data),
            role := Some (case first (roleNames data) of
                            None \<Rightarrow> ''usuario''
                          | Some r \<Rightarrow> if r \<noteq> [] then r else ''usuario''),
            branches := bs,
            activeBranch := first bs\<rparr>)"

text \<open>
  \<^verbatim>\<open>mounted()\<close> of the Home view. A response that is not \<^verbatim>\<open>ok\<close> throws inside the
  \<^verbatim>\<open>try\<close>; with a rejected \<^verbatim>\<open>fetch\<close> and a rejected \<^verbatim>\<open>res.json()\<close> it ends in the
  \<^verbatim>\<open>catch\<close> branch.
\<close>

definition home_mounted :: "me fetch_result \<Rightarrow> home_view \<times> browser \<Rightarrow> home_view \<times> browser" where
  "home_mounted res = (\<lambda>(v, b).
     let token = getItem ''token'' b in
     if no_token token then (v, push ''/login'' b)
     else
       let b1 = fetch (me_request token) b;
           caught = logout (v\<lparr>accessError := Some ''Sesion invalida''\<rparr>, b1) in
       case res of
         Network_failure \<Rightarrow> caught
       | Response res_ok js \<Rightarrow>
           if \<not> res_ok then caught
           else (case js of
                   None \<Rightarrow> caught
                 | Some data \<Rightarrow>
                     let v1 = load_profile data v in
                     if role v1 \<noteq> Some ''administrador''
                     then logout (v1\<lparr>accessError := Some ''Acceso exclusivo para administradores''\<rparr>, b1)
                     else (v1, b1)))"


section \<open>Inventory.vue\<close>

subsection \<open>Strings\<close>

text \<open>
  A string is a sequence of code units below 256 (ASCII and Latin-1). In that range
  \<^verbatim>\<open>trim\<close> removes, at both ends, tab, line feed, vertical tab, form feed, carriage
  return, space and the no-break space; \<^verbatim>\<open>toLowerCase\<close> adds 32 to \<^verbatim>\<open>A\<close>..\<^verbatim>\<open>Z\<close> and to
  the capital letters from \<^verbatim>\<open>U+00C0\<close> to \<^verbatim>\<open>U+00DE\<close> (the multiplication sign
  \<^verbatim>\<open>U+00D7\<close> is not a letter) and leaves the rest.
\<close>

definition white_space :: "char \<Rightarrow> bool" where
  "white_space c = (let n = (of_char c :: nat) in (9 \<le> n \<and> n \<le> 13) \<or> n = 32 \<or> n = 160)"

definition trim :: "string \<Rightarrow> string" where
  "trim s = rev (dropWhile white_space (rev (dropWhile white_space s)))"

definition lower_char :: "char \<Rightarrow> char" where
  "lower_char c =
     (let n = (of_char c :: nat) in
      if (65 \<le> n \<and> n \<le> 90) \<or> (192 \<le> n \<and> n \<le> 222 \<and> n \<noteq> 215) then char_of (n + 32) else c)"

definition toLowerCase :: "string \<Rightarrow> string" where
  "toLowerCase s = map lower_char s"

text \<open>\<^verbatim>\<open>xs.join(sep)\<close>\<close>

fun join :: "string \<Rightarrow> string list \<Rightarrow> string" where
  "join sep [] = []"
| "join sep [x] = x"
| "join sep (x # y # ys) = x @ sep @ join sep (y # ys)"

text \<open>\<^verbatim>\<open>hay.includes(needle)\<close>: the needle starts at some position of the hay.\<close>

fun str_includes :: "string \<Rightarrow> string \<Rightarrow> bool" where
  "str_includes [] needle = (needle = [])"
| "str_includes (c # cs) needle = (prefix needle (c # cs) \<or> str_includes cs needle)"

text \<open>
  \<^verbatim>\<open>xs.filter(Boolean)\<close> on an array of strings, some of them \<^verbatim>\<open>undefined\<close> or
  \<^verbatim>\<open>null\<close> (\<open>None\<close>): the non-empty strings stay.
\<close>

fun filter_Boolean :: "string option list \<Rightarrow> string list" where
  "filter_Boolean [] = []"
| "filter_Boolean (None # xs) = filter_Boolean xs"
| "filter_Boolean (Some s # xs) = (if s = [] then filter_Boolean xs else s # filter_Boolean xs)"

subsection \<open>The data of the view\<close>

text \<open>
  The objects of the backend's answers; the field \<^verbatim>\<open>f\<close> of a line is \<open>l_f\<close>, of a
  segment \<open>s_f\<close>, of a product \<open>p_f\<close>. A field the view reads through \<^verbatim>\<open>?.\<close> or
  \<^verbatim>\<open>||\<close> may be \<^verbatim>\<open>null\<close> or missing (\<open>None\<close>).
\<close>

record linea =
  l_id :: int
  l_cod_linea :: string
  l_linea :: string
  l_activo :: bool

record segmento =
  s_id :: int
  s_segmento :: string

record saldo =
  sa_existencia :: "rat option"

record producto =
  p_id :: int
  p_cod_producto :: string
  p_descripcion :: string
  p_linea :: "linea option"
  p_segmento :: "segmento option"
  p_marca :: "string option"
  p_referencia_producto :: "string option"
  p_precio_venta1 :: "rat option"
  p_precio_venta2 :: "rat option"
  p_precio_venta3 :: "rat option"
  p_costo_producto :: "rat option"
  p_saldo :: "saldo option"
  p_activo :: bool
  p_registro :: "string option"
  p_ultima_modificacion :: "string option"

record catalogs =
  c_lineas :: "linea list option"
  c_segmentos :: "segmento list option"

text \<open>
  The product form. A text input holds a string, a select the value of the chosen
  option (the empty string or an identifier), a number input what \<^verbatim>\<open>v-model.number\<close>
  leaves (a number, or the text that is not one), the checkbox a boolean.
\<close>

record product_form =
  cod_producto :: string
  descripcion :: string
  linea_id :: jsval
  segmento_id :: jsval
  marca :: string
  referencia_producto :: string
  precio_venta1 :: jsval
  precio_venta2 :: jsval
  precio_venta3 :: jsval
  costo_producto :: jsval
  existencia :: jsval
  activo :: bool

record linea_form =
  lf_cod_linea :: string
  lf_linea :: string
  lf_activo :: bool

record segmento_form =
  sf_segmento :: string

record inventory_view =
  products :: "producto list"
  lineas :: "linea list"
  segmentos :: "segmento list"
  includeInactive :: bool
  isEditing :: bool
  editingId :: "int option"
  search :: string
  showLineaForm :: bool
  showSegmentoForm :: bool
  lineaForm :: linea_form
  segmentoForm :: segmento_form
  form :: product_form

definition empty_form :: product_form where
  "empty_form =
     \<lparr>cod_producto = [], descripcion = [], linea_id = Str [], segmento_id = Str [],
      marca = [], referencia_producto = [],
      precio_venta1 = Num 0, precio_venta2 = Num 0, precio_venta3 = Num 0,
      costo_producto = Num 0, existencia = Num 0, activo = True\<rparr>"

text \<open>\<^verbatim>\<open>data()\<close>\<close>

definition inventory_data :: inventory_view where
  "inventory_data =
     \<lparr>products = [], lineas = [], segmentos = [], includeInactive = False,
      isEditing = False, editingId = None, search = [],
      showLineaForm = False, showSegmentoForm = False,
      lineaForm = \<lparr>lf_cod_linea = [], lf_linea = [], lf_activo = True\<rparr>,
      segmentoForm = \<lparr>sf_segmento = []\<rparr>,
      form = empty_form\<rparr>"

subsection \<open>The computed list\<close>

text \<open>The array \<^verbatim>\<open>values\<close> of the filter callback, before \<^verbatim>\<open>filter(Boolean)\<close>.\<close>

definition search_fields :: "producto \<Rightarrow> string option list" where
  "search_fields producto =
     [Some (p_cod_producto producto),
      Some (p_descripcion producto),
      map_option l_linea (p_linea producto),
      map_option s_segmento (p_segmento producto),
      p_marca producto]"

definition filteredProducts :: "inventory_view \<Rightarrow> producto list" where
  "filteredProducts v =
     (let query = toLowerCase (trim (search v)) in
      if query = [] then products v
      else filter (\<lambda>producto.
             str_includes (toLowerCase (join '' '' (filter_Boolean (search_fields producto)))) query)
             (products v))"

subsection \<open>The methods\<close>

text \<open>
  The methods of this view are \<^verbatim>\<open>async\<close> and have no \<^verbatim>\<open>try\<close>: when an awaited promise
  rejects, the method stops there and its own promise rejects (\<open>Rejected\<close>), with the
  data and the browser as they were at that point.
\<close>

datatype completion = Resolved | Rejected

type_synonym inventory_result = "completion \<times> inventory_view \<times> browser"

definition catalogs_request :: "string option \<Rightarrow> request" where
  "catalogs_request token =
     \<lparr>req_method = GET, url = Inventory_catalogs, authorization = Some (bearer token),
      content_type = None, body = None\<rparr>"

definition fetchCatalogs :: "catalogs fetch_result \<Rightarrow> inventory_view \<times> browser \<Rightarrow> inventory_result" where
  "fetchCatalogs res = (\<lambda>(v, b).
     let token = getItem ''token'' b;
         b1 = fetch (catalogs_request token) b in
     case res of
       Network_failure \<Rightarrow> (Rejected, v, b1)
     | Response res_ok js \<Rightarrow>
         if res_ok then
           (case js of
              None \<Rightarrow> (Rejected, v, b1)
            | Some data \<Rightarrow>
                (Resolved,
                 v\<lparr>lineas := (case c_lineas data of None \<Rightarrow> [] | Some ls \<Rightarrow> ls),
                   segmentos := (case c_segmentos data of None \<Rightarrow> [] | Some ss \<Rightarrow> ss)\<rparr>,
                 b1))
         else (Resolved, v, b1))"

definition products_request :: "bool \<Rightarrow> string option \<Rightarrow> request" where
  "products_request include_inactive token =
     \<lparr>req_method = GET, url = Inventory_products_query include_inactive,
      authorization = Some (bearer token), content_type = None, body = None\<rparr>"

definition fetchProducts :: "producto list fetch_result \<Rightarrow> inventory_view \<times> browser \<Rightarrow> inventory_result" where
  "fetchProducts res = (\<lambda>(v, b).
     let token = getItem ''token'' b;
         b1 = fetch (products_request (includeInactive v) token) b in
     case res of
       Network_failure \<Rightarrow> (Rejected, v, b1)
     | Response res_ok js \<Rightarrow>
         if res_ok then
           (case js of
              None \<Rightarrow> (Rejected, v, b1)
            | Some ps \<Rightarrow> (Resolved, v\<lparr>products := ps\<rparr>, b1))
         else (Resolved, v, b1))"

text \<open>\<^verbatim>\<open>mounted()\<close> of the Inventory view.\<close>

definition inventory_mounted ::
  "catalogs fetch_result \<Rightarrow> producto list fetch_result \<Rightarrow> inventory_view \<times> browser \<Rightarrow> inventory_result" where
  "inventory_mounted res1 res2 vb =
     (case fetchCatalogs res1 vb of
        (Rejected, v1, b1) \<Rightarrow> (Rejected, v1, b1)
      | (Resolved, v1, b1) \<Rightarrow> fetchProducts res2 (v1, b1))"

definition resetForm :: "inventory_view \<Rightarrow> inventory_view" where
  "resetForm v = v\<lparr>isEditing := False, editingId := None, form := empty_form\<rparr>"

text \<open>\<^verbatim>\<open>{ ...this.form }\<close>: the members of the form, in the order \<^verbatim>\<open>data()\<close> gives them.\<close>

definition spread :: "product_form \<Rightarrow> (string \<times> jsval) list" where
  "spread f =
     [(''cod_producto'', Str (cod_producto f)),
      (''descripcion'', Str (descripcion f)),
      (''linea_id'', linea_id f),
      (''segmento_id'', segmento_id f),
      (''marca'', Str (marca f)),
      (''referencia_producto'', Str (referencia_producto f)),
      (''precio_venta1'', precio_venta1 f),
      (''precio_venta2'', precio_venta2 f),
      (''precio_venta3'', precio_venta3 f),
      (''costo_producto'', costo_producto f),
      (''existencia'', existencia f),
      (''activo'', Bool (activo f))]"

text \<open>
  The request of \<^verbatim>\<open>saveProduct\<close>. An assignment to a member the object has keeps the
  member's place (\<open>AList.update\<close>); \<^verbatim>\<open>delete\<close> removes the member (\<open>AList.delete\<close>).
\<close>

definition save_request :: "inventory_view \<Rightarrow> string option \<Rightarrow> request" where
  "save_request v token =
     (let payload0 = spread (form v);
          payload1 = AList.update ''linea_id'' (js_or (linea_id (form v)) Null) payload0;
          payload2 = AList.update ''segmento_id'' (js_or (segmento_id (form v)) Null) payload1;
          u = (if isEditing v then Inventory_product (editingId v) else Inventory_products);
          m = (if isEditing v then PUT else POST);
          payload = (if isEditing v then AList.delete ''cod_producto'' payload2 else payload2)
      in \<lparr>req_method = m, url = u, authorization = Some (bearer token),
          content_type = Some ''application/json'', body = Some payload\<rparr>)"

definition saveProduct ::
  "unit fetch_result \<Rightarrow> producto list fetch_result \<Rightarrow> inventory_view \<times> browser \<Rightarrow> inventory_result" where
  "saveProduct res res2 = (\<lambda>(v, b).
     let token = getItem ''token'' b;
         b1 = fetch (save_request v token) b in
     case res of
       Network_failure \<Rightarrow> (Rejected, v, b1)
     | Response res_ok js \<Rightarrow>
         if res_ok then
           (case fetchProducts res2 (v, b1) of
              (Rejected, v2, b2) \<Rightarrow> (Rejected, v2, b2)
            | (Resolved, v2, b2) \<Rightarrow> (Resolved, resetForm v2, b2))
         else (Resolved, v, b1))"

text \<open>
  \<^verbatim>\<open>editProduct(producto)\<close>. \<^verbatim>\<open>x || ""\<close> and \<^verbatim>\<open>Number(x || 0)\<close> replace a missing or falsy
  field by the empty string and by zero.
\<close>

definition number_or_zero :: "rat option \<Rightarrow> jsval" where
  "number_or_zero x = Num (case x of None \<Rightarrow> 0 | Some r \<Rightarrow> r)"

definition editProduct :: "producto \<Rightarrow> inventory_view \<Rightarrow> inventory_view" where
  "editProduct producto v =
     v\<lparr>isEditing := True,
       editingId := Some (p_id producto),
       form :=
         \<lparr>cod_producto = p_cod_producto producto,
          descripcion = p_descripcion producto,
          linea_id = (case p_linea producto of
                        None \<Rightarrow> Str []
                      | Some l \<Rightarrow> js_or (Num (of_int (l_id l))) (Str [])),
          segmento_id = (case p_segmento producto of
                           None \<Rightarrow> Str []
                         | Some sg \<Rightarrow> js_or (Num (of_int (s_id sg))) (Str [])),
          marca = (case p_marca producto of None \<Rightarrow> [] | Some m \<Rightarrow> m),
          referencia_producto = (case p_referencia_producto producto of None \<Rightarrow> [] | Some r \<Rightarrow> r),
          precio_venta1 = number_or_zero (p_precio_venta1 producto),
          precio_venta2 = number_or_zero (p_precio_venta2 producto),
          precio_venta3 = number_or_zero (p_precio_venta3 producto),
          costo_producto = number_or_zero (p_costo_producto producto),
          existencia = number_or_zero (case p_saldo producto of None \<Rightarrow> None | Some sa \<Rightarrow> sa_existencia sa),
          activo = p_activo producto\<rparr>\<rparr>"

definition deactivate_request :: "producto \<Rightarrow> string option \<Rightarrow> request" where
  "deactivate_request producto token =
     \<lparr>req_method = PATCH, url = Inventory_product_deactivate (p_id producto),
      authorization = Some (bearer token), content_type = None, body = None\<rparr>"

text \<open>
  \<^verbatim>\<open>deactivateProduct(producto)\<close>: the response of the \<^verbatim>\<open>PATCH\<close> is awaited and not
  looked at.
\<close>

definition deactivateProduct ::
  "producto \<Rightarrow> unit fetch_result \<Rightarrow> producto list fetch_result \<Rightarrow> inventory_view \<times> browser \<Rightarrow> inventory_result" where
  "deactivateProduct producto res res2 = (\<lambda>(v, b).
     let token = getItem ''token'' b;
         b1 = fetch (deactivate_request producto token) b in
     case res of
       Network_failure \<Rightarrow> (Rejected, v, b1)
     | Response res_ok js \<Rightarrow> fetchProducts res2 (v, b1))"

definition resetLineaForm :: "inventory_view \<Rightarrow> inventory_view" where
  "resetLineaForm v = v\<lparr>lineaForm := \<lparr>lf_cod_linea = [], lf_linea = [], lf_activo = True\<rparr>\<rparr>"

definition resetSegmentoForm :: "inventory_view \<Rightarrow> inventory_view" where
  "resetSegmentoForm v = v\<lparr>segmentoForm := \<lparr>sf_segmento = []\<rparr>\<rparr>"

definition linea_request :: "inventory_view \<Rightarrow> string option \<Rightarrow> request" where
  "linea_request v token =
     \<lparr>req_method = POST, url = Inventory_lineas, authorization = Some (bearer token),
      content_type = Some ''application/json'',
      body = Some [(''cod_linea'', Str (lf_cod_linea (lineaForm v))),
                   (''linea'', Str (lf_linea (lineaForm v))),
                   (''activo'', Bool (lf_activo (lineaForm v)))]\<rparr>"

definition saveLinea ::
  "unit fetch_result \<Rightarrow> catalogs fetch_result \<Rightarrow> inventory_view \<times> browser \<Rightarrow> inventory_result" where
  "saveLinea res res2 = (\<lambda>(v, b).
     let token = getItem ''token'' b;
         b1 = fetch (linea_request v token) b in
     case res of
       Network_failure \<Rightarrow> (Rejected, v, b1)
     | Response res_ok js \<Rightarrow>
         if res_ok then
           (case fetchCatalogs res2 (v, b1) of
              (Rejected, v2, b2) \<Rightarrow> (Rejected, v2, b2)
            | (Resolved, v2, b2) \<Rightarrow> (Resolved, resetLineaForm v2, b2))
         else (Resolved, v, b1))"

definition segmento_request :: "inventory_view \<Rightarrow> string option \<Rightarrow> request" where
  "segmento_request v token =
     \<lparr>req_method = POST, url = Inventory_segmentos, authorization = Some (bearer token),
      content_type = Some ''application/json'',
      body = Some [(''segmento'', Str (sf_segmento (segmentoForm v)))]\<rparr>"

definition saveSegmento ::
  "unit fetch_result \<Rightarrow> catalogs fetch_result \<Rightarrow> inventory_view \<times> browser \<Rightarrow> inventory_result" where
  "saveSegmento res res2 = (\<lambda>(v, b).
     let token = getItem ''token'' b;
         b1 = fetch (segmento_request v token) b in
     case res of
       Network_failure \<Rightarrow> (Rejected, v, b1)
     | Response res_ok js \<Rightarrow>
         if res_ok then
           (case fetchCatalogs res2 (v, b1) of
              (Rejected, v2, b2) \<Rightarrow> (Rejected, v2, b2)
            | (Resolved, v2, b2) \<Rightarrow> (Resolved, resetSegmentoForm v2, b2))
         else (Resolved, v, b1))"


section \<open>Sample data\<close>

definition empty_browser :: browser where
  "empty_browser = \<lparr>localStorage = Map.empty, events = []\<rparr>"

definition stored_browser :: browser where
  "stored_browser = \<lparr>localStorage = [''token'' \<mapsto> ''tok''], events = []\<rparr>"

definition ana_login :: login_view where
  "ana_login = \<lparr>email = ''ana'', password = ''pw'', remember = True, error = None, phraseIndex = 0\<rparr>"

definition admin_me :: me where
  "admin_me = Me (Some ''Ana'') ''ana'' (Some [Role ''administrador'']) None"

definition seller_me :: me where
  "seller_me = Me None ''luis'' (Some [Role ''seguridad'', Role ''administrador'']) None"

definition camisa :: producto where
  "camisa =
     \<lparr>p_id = 7, p_cod_producto = ''a'', p_descripcion = ''b'',
      p_linea = None, p_segmento = None, p_marca = None, p_referencia_producto = None,
      p_precio_venta1 = None, p_precio_venta2 = None, p_precio_venta3 = None,
      p_costo_producto = None, p_saldo = None, p_activo = True,
      p_registro = None, p_ultima_modificacion = None\<rparr>"


definition pantalon :: producto where
  "pantalon = camisa\<lparr>p_id := 8, p_cod_producto := ''x'', p_descripcion := ''y''\<rparr>"


section \<open>Notions used in the statements\<close>

text \<open>
  The text the filter callback searches: the non-empty fields joined by single spaces
  (before \<^verbatim>\<open>toLowerCase\<close>).
\<close>

definition joined_fields :: "producto \<Rightarrow> string" where
  "joined_fields p = join '' '' (filter_Boolean (search_fields p))"

text \<open>
  The match as the specification words it: one of the code, the description, the line
  name, the segment name and the brand, missing ones skipped, contains the query, case
  not counting.
\<close>

definition some_field_contains :: "string \<Rightarrow> producto \<Rightarrow> bool" where
  "some_field_contains q p =
     list_ex (\<lambda>s. sublist (toLowerCase q) (toLowerCase s)) (filter_Boolean (search_fields p))"

text \<open>
  An awaited call that does not reject: \<^verbatim>\<open>fetch\<close> resolves and, when the response is
  \<^verbatim>\<open>ok\<close> and its body is read, \<^verbatim>\<open>res.json()\<close> resolves.
\<close>

definition settles :: "'a fetch_result \<Rightarrow> bool" where
  "settles res =
     (case res of Network_failure \<Rightarrow> False | Response k js \<Rightarrow> (if k then js \<noteq> None else True))"


section \<open>Properties\<close>

lemmas browser_defs = fetch_def getItem_def setItem_def removeItem_def push_def

subsection \<open>Session guard\<close>

text \<open>
  The Home view without a token (\<^verbatim>\<open>null\<close> or empty): one navigation to the login
  route, no request, no write to the storage, the data of the view untouched.
\<close>

lemma home_mounted_without_token:
  "no_token (getItem ''token'' b) \<Longrightarrow> home_mounted res (v, b) = (v, push ''/login'' b)"
  by (simp add: home_mounted_def)

text \<open>
  The Inventory view, whatever the storage holds and the backend answers: \<^verbatim>\<open>mounted\<close>
  starts with the catalogs request and does nothing but requests.
\<close>

lemma inventory_mounted_only_fetches:
  "\<exists>es. events (snd (snd (inventory_mounted res1 res2 (v, b))))
          = events b @ Fetch (catalogs_request (getItem ''token'' b)) # es
      \<and> list_all is_fetch es"
  by (simp add: inventory_mounted_def fetchCatalogs_def fetchProducts_def is_fetch_def
      browser_defs Let_def split: fetch_result.split option.split)

text \<open>
  C1, on the Inventory view. With an empty local storage and a backend that refuses both
  calls, \<^verbatim>\<open>mounted\<close> sends the catalogs request and the products request, each with the
  header \<^verbatim>\<open>Authorization: Bearer null\<close>, and never navigates: the view has no token
  test, where the Home view has one.
\<close>

theorem inventory_mounted_without_token:
  "inventory_mounted (Response False None) (Response False None) (inventory_data, empty_browser)
   = (Resolved, inventory_data,
      \<lparr>localStorage = Map.empty,
       events = [Fetch \<lparr>req_method = GET, url = Inventory_catalogs,
                        authorization = Some ''Bearer null'', content_type = None, body = None\<rparr>,
                 Fetch \<lparr>req_method = GET, url = Inventory_products_query False,
                        authorization = Some ''Bearer null'', content_type = None, body = None\<rparr>]\<rparr>)"
  by (simp add: inventory_mounted_def fetchCatalogs_def fetchProducts_def catalogs_request_def
      products_request_def bearer_def browser_defs empty_browser_def inventory_data_def)

text \<open>
  C2. The Home view holds a token and calls the profile endpoint with it. When the call
  fails on the network, or the response is not \<^verbatim>\<open>ok\<close>, the token is removed from the local
  storage and the view then navigates to the login route; the request, the removal and
  the navigation are the only events. (The call is made only for a non-empty token: the
  empty string is treated as no token.)
\<close>

theorem home_rejected:
  assumes "getItem ''token'' b = Some t" and "t \<noteq> []"
    and "res = Network_failure \<or> res = Response False js"
  shows "localStorage (snd (home_mounted res (v, b))) ''token'' = None
       \<and> events (snd (home_mounted res (v, b)))
           = events b @ [Fetch (me_request (Some t)), RemoveItem ''token'', Push ''/login'']
       \<and> fst (home_mounted res (v, b)) = v\<lparr>accessError := Some ''Sesion invalida''\<rparr>"
  using assms by (auto simp: home_mounted_def logout_def no_token_def browser_defs Let_def)

theorem home_rejected_witness:
  "getItem ''token'' stored_browser = Some ''tok'' \<and> ''tok'' \<noteq> []
   \<and> localStorage (snd (home_mounted (Response False None) (home_data, stored_browser))) ''token'' = None
   \<and> events (snd (home_mounted (Response False None) (home_data, stored_browser)))
       = [Fetch (me_request (Some ''tok'')), RemoveItem ''token'', Push ''/login'']
   \<and> localStorage (snd (home_mounted Network_failure (home_data, stored_browser))) ''token'' = None
   \<and> events (snd (home_mounted Network_failure (home_data, stored_browser)))
       = [Fetch (me_request (Some ''tok'')), RemoveItem ''token'', Push ''/login'']"
proof -
  have tok: "getItem ''token'' stored_browser = Some ''tok''"
    by (simp add: getItem_def stored_browser_def)
  have ne: "''tok'' \<noteq> []" by simp
  have ev: "events stored_browser = []" by (simp add: stored_browser_def)
  from home_rejected [OF tok ne, where res = "Response False None" and js = None and v = home_data]
       home_rejected [OF tok ne, where res = Network_failure and js = None and v = home_data]
  show ?thesis using tok ev by simp
qed

subsection \<open>Role gate\<close>

text \<open>
  C3. The Home view holds a token and the profile endpoint answers \<^verbatim>\<open>ok\<close> with a profile.
  If the first role name of the profile is \<^verbatim>\<open>administrador\<close>, \<open>canChooseBranch\<close> is true
  and nothing happens after the request (the token stays, no navigation). For every
  other first role name, and when the profile has no role, the token is removed and the
  view navigates to the login route.
\<close>

theorem home_role_gate:
  assumes "getItem ''token'' b = Some t" and "t \<noteq> []"
  shows "(first (roleNames data) = Some ''administrador'' \<longrightarrow>
            canChooseBranch (fst (home_mounted (Response True (Some data)) (v, b)))
          \<and> snd (home_mounted (Response True (Some data)) (v, b)) = fetch (me_request (Some t)) b)
       \<and> (first (roleNames data) \<noteq> Some ''administrador'' \<longrightarrow>
            localStorage (snd (home_mounted (Response True (Some data)) (v, b))) ''token'' = None
          \<and> events (snd (home_mounted (Response True (Some data)) (v, b)))
              = events b @ [Fetch (me_request (Some t)), RemoveItem ''token'', Push ''/login''])"
  using assms
  by (auto simp: home_mounted_def load_profile_def logout_def no_token_def canChooseBranch_def
      browser_defs Let_def split: option.splits)

theorem home_role_gate_witness:
  "getItem ''token'' stored_browser = Some ''tok'' \<and> ''tok'' \<noteq> []
   \<and> first (roleNames admin_me) = Some ''administrador''
   \<and> canChooseBranch (fst (home_mounted (Response True (Some admin_me)) (home_data, stored_browser)))
   \<and> localStorage (snd (home_mounted (Response True (Some admin_me)) (home_data, stored_browser))) ''token''
       = Some ''tok''
   \<and> first (roleNames seller_me) \<noteq> Some ''administrador''
   \<and> localStorage (snd (home_mounted (Response True (Some seller_me)) (home_data, stored_browser))) ''token''
       = None
   \<and> events (snd (home_mounted (Response True (Some seller_me)) (home_data, stored_browser)))
       = [Fetch (me_request (Some ''tok'')), RemoveItem ''token'', Push ''/login'']"
proof -
  have tok: "getItem ''token'' stored_browser = Some ''tok''"
    by (simp add: getItem_def stored_browser_def)
  have ne: "''tok'' \<noteq> []" by simp
  have adm: "first (roleNames admin_me) = Some ''administrador''"
    by (simp add: first_def roleNames_def admin_me_def)
  have sel: "first (roleNames seller_me) \<noteq> Some ''administrador''"
    by (simp add: first_def roleNames_def seller_me_def)
  from home_role_gate [OF tok ne, where data = admin_me and v = home_data]
       home_role_gate [OF tok ne, where data = seller_me and v = home_data]
  show ?thesis using tok adm sel by (simp add: fetch_def stored_browser_def)
qed

subsection \<open>Login form\<close>

text \<open>
  C5. One submission of the login form sends one request. A response that is not \<^verbatim>\<open>ok\<close>
  sets the error to \<^verbatim>\<open>Credenciales incorrectas\<close>; the request is the only event, so
  nothing is written to the storage and there is no navigation. A network failure sets
  the error to \<^verbatim>\<open>Error de conexion\<close>, and so does an \<^verbatim>\<open>ok\<close> response whose body cannot be
  read. An \<^verbatim>\<open>ok\<close> response with its body stores the
  \<^verbatim>\<open>access_token\<close> of the body under \<^verbatim>\<open>token\<close> and then navigates to \<^verbatim>\<open>/home\<close>.
\<close>

theorem login_outcomes:
  "login (Response False js) (v, b)
     = (v\<lparr>error := Some ''Credenciales incorrectas''\<rparr>, fetch (login_request v) b)
   \<and> localStorage (snd (login (Response False js) (v, b))) = localStorage b
   \<and> events (snd (login (Response False js) (v, b))) = events b @ [Fetch (login_request v)]
   \<and> login Network_failure (v, b)
     = (v\<lparr>error := Some ''Error de conexion''\<rparr>, fetch (login_request v) b)
   \<and> login (Response True None) (v, b)
     = (v\<lparr>error := Some ''Error de conexion''\<rparr>, fetch (login_request v) b)
   \<and> fst (login (Response True (Some data)) (v, b)) = v
   \<and> localStorage (snd (login (Response True (Some data)) (v, b))) ''token'' = Some (access_token data)
   \<and> events (snd (login (Response True (Some data)) (v, b)))
       = events b @ [Fetch (login_request v), SetItem ''token'' (access_token data), Push ''/home'']"
  by (simp add: login_def browser_defs)

theorem login_outcomes_witness:
  "error (fst (login (Response False None) (ana_login, empty_browser))) = Some ''Credenciales incorrectas''
   \<and> events (snd (login (Response False None) (ana_login, empty_browser)))
       = [Fetch \<lparr>req_method = POST, url = Auth_login, authorization = None,
                 content_type = Some ''application/json'',
                 body = Some [(''email'', Str ''ana''), (''password'', Str ''pw'')]\<rparr>]
   \<and> error (fst (login Network_failure (ana_login, empty_browser))) = Some ''Error de conexion''
   \<and> localStorage (snd (login (Response True (Some (Login_data ''tok''))) (ana_login, empty_browser))) ''token''
       = Some ''tok''"
  using login_outcomes [where js = None and v = ana_login and b = empty_browser
      and data = "Login_data ''tok''"]
  by (simp add: login_request_def fetch_def ana_login_def empty_browser_def)

text \<open>
  C9. Two submissions that differ only in the \<^verbatim>\<open>remember\<close> field send the same request,
  whose body has the members \<^verbatim>\<open>email\<close> and \<^verbatim>\<open>password\<close> only, and leave the same
  browser (stored token, requests, navigation) and the same error; the field itself is
  carried over unchanged.
\<close>

theorem remember_unused:
  "login_request (v\<lparr>remember := r1\<rparr>) = login_request (v\<lparr>remember := r2\<rparr>)
   \<and> body (login_request (v\<lparr>remember := r1\<rparr>))
       = Some [(''email'', Str (email v)), (''password'', Str (password v))]
   \<and> snd (login res (v\<lparr>remember := r1\<rparr>, b)) = snd (login res (v\<lparr>remember := r2\<rparr>, b))
   \<and> error (fst (login res (v\<lparr>remember := r1\<rparr>, b))) = error (fst (login res (v\<lparr>remember := r2\<rparr>, b)))
   \<and> fst (login res (v\<lparr>remember := r1\<rparr>, b)) = (fst (login res (v, b)))\<lparr>remember := r1\<rparr>"
  by (simp add: login_def login_request_def browser_defs Let_def split: fetch_result.split option.split)

theorem remember_unused_witness:
  "snd (login (Response True (Some (Login_data ''tok''))) (ana_login\<lparr>remember := True\<rparr>, empty_browser))
   = snd (login (Response True (Some (Login_data ''tok''))) (ana_login\<lparr>remember := False\<rparr>, empty_browser))
   \<and> body (login_request (ana_login\<lparr>remember := True\<rparr>))
       = Some [(''email'', Str ''ana''), (''password'', Str ''pw'')]"
  using remember_unused [where v = ana_login and b = empty_browser and ?r1.0 = True and ?r2.0 = False
      and res = "Response True (Some (Login_data ''tok''))"]
  by (simp add: ana_login_def login_request_def)

subsection \<open>Product reconciler: the requests\<close>

text \<open>
  C6. In edit mode the request of \<^verbatim>\<open>saveProduct\<close> is a \<^verbatim>\<open>PUT\<close> to the endpoint of
  \<open>editingId\<close>, which after \<^verbatim>\<open>editProduct(p)\<close> is the identifier of \<open>p\<close>, and its payload has
  no member \<^verbatim>\<open>cod_producto\<close>. In create mode it is a \<^verbatim>\<open>POST\<close> to the collection, and its
  payload has the member \<^verbatim>\<open>cod_producto\<close> with the code of the form. That request is the
  first thing \<^verbatim>\<open>saveProduct\<close> does.
\<close>

theorem save_request_by_mode:
  "(isEditing v \<longrightarrow>
      req_method (save_request v tok) = PUT
    \<and> url (save_request v tok) = Inventory_product (editingId v)
    \<and> (\<exists>payload. body (save_request v tok) = Some payload \<and> map_of payload ''cod_producto'' = None))
   \<and> (\<not> isEditing v \<longrightarrow>
      req_method (save_request v tok) = POST
    \<and> url (save_request v tok) = Inventory_products
    \<and> (\<exists>payload. body (save_request v tok) = Some payload
          \<and> map_of payload ''cod_producto'' = Some (Str (cod_producto (form v)))))
   \<and> url (save_request (editProduct p v) tok) = Inventory_product (Some (p_id p))
   \<and> prefix (events b @ [Fetch (save_request v (getItem ''token'' b))])
        (events (snd (snd (saveProduct res res2 (v, b)))))"
  by (auto simp: save_request_def spread_def editProduct_def saveProduct_def fetchProducts_def
      browser_defs Let_def split: fetch_result.split option.split)


theorem save_request_by_mode_witness:
  "isEditing (editProduct camisa inventory_data)
   \<and> req_method (save_request (editProduct camisa inventory_data) (Some ''tok'')) = PUT
   \<and> url (save_request (editProduct camisa inventory_data) (Some ''tok'')) = Inventory_product (Some 7)
   \<and> \<not> isEditing inventory_data
   \<and> req_method (save_request inventory_data (Some ''tok'')) = POST
   \<and> url (save_request inventory_data (Some ''tok'')) = Inventory_products"
proof -
  have e: "isEditing (editProduct camisa inventory_data)" by (simp add: editProduct_def)
  have n: "\<not> isEditing inventory_data" by (simp add: inventory_data_def)
  have i: "editingId (editProduct camisa inventory_data) = Some 7"
    by (simp add: editProduct_def camisa_def)
  from save_request_by_mode [where v = "editProduct camisa inventory_data" and tok = "Some ''tok''"]
       save_request_by_mode [where v = inventory_data and tok = "Some ''tok''"]
  show ?thesis using e n i by simp
qed


text \<open>
  C10. In the payload of \<^verbatim>\<open>saveProduct\<close>, in both modes, \<^verbatim>\<open>linea_id\<close> and \<^verbatim>\<open>segmento_id\<close>
  are the selections of the form when these are truthy and \<^verbatim>\<open>null\<close> otherwise: an empty
  string is sent as \<^verbatim>\<open>null\<close>, and neither member is ever the empty string.
\<close>

theorem selection_normalised:
  "\<exists>payload. body (save_request v tok) = Some payload
     \<and> map_of payload ''linea_id'' = Some (js_or (linea_id (form v)) Null)
     \<and> map_of payload ''segmento_id'' = Some (js_or (segmento_id (form v)) Null)
     \<and> map_of payload ''linea_id'' \<noteq> Some (Str [])
     \<and> map_of payload ''segmento_id'' \<noteq> Some (Str [])
     \<and> (linea_id (form v) = Str [] \<longrightarrow> map_of payload ''linea_id'' = Some Null)
     \<and> (segmento_id (form v) = Str [] \<longrightarrow> map_of payload ''segmento_id'' = Some Null)"
  by (auto simp: save_request_def spread_def js_or_def Let_def)


theorem selection_normalised_witness:
  "linea_id (form inventory_data) = Str [] \<and> segmento_id (form inventory_data) = Str []
   \<and> (\<exists>payload. body (save_request inventory_data (Some ''tok'')) = Some payload
        \<and> map_of payload ''linea_id'' = Some Null \<and> map_of payload ''segmento_id'' = Some Null)"
proof -
  have l: "linea_id (form inventory_data) = Str []" and g: "segmento_id (form inventory_data) = Str []"
    by (simp_all add: inventory_data_def empty_form_def)
  from selection_normalised [where v = inventory_data and tok = "Some ''tok''"]
  show ?thesis using l g by auto
qed


subsection \<open>Product reconciler: after the answer\<close>

lemma fetchProducts_settles: "fst (fetchProducts res (v, b)) = Resolved \<longleftrightarrow> settles res"
  by (simp add: fetchProducts_def settles_def Let_def split: fetch_result.split option.split)


text \<open>
  C4, as amended. After an \<^verbatim>\<open>ok\<close> answer to the request of \<^verbatim>\<open>saveProduct\<close> (create or
  update) the product list is requested next; when that second call does not reject,
  the method resolves with the form in create mode and every field at its default
  (\<open>isEditing\<close> false, \<open>editingId\<close> null, strings empty, numbers zero, \<open>activo\<close> true), and
  the list is the one the backend returned. After any answer to the request of
  \<^verbatim>\<open>deactivateProduct\<close> the product list is requested next as well, and the form, the
  mode and \<open>editingId\<close> stay as they were.
\<close>

theorem mutation_refetch:
  "events (snd (snd (saveProduct (Response True js) res2 (v, b))))
     = events b @ [Fetch (save_request v (getItem ''token'' b)),
                   Fetch (products_request (includeInactive v) (getItem ''token'' b))]
   \<and> (settles res2 \<longrightarrow>
        fst (saveProduct (Response True js) res2 (v, b)) = Resolved
      \<and> isEditing (fst (snd (saveProduct (Response True js) res2 (v, b)))) = False
      \<and> editingId (fst (snd (saveProduct (Response True js) res2 (v, b)))) = None
      \<and> form (fst (snd (saveProduct (Response True js) res2 (v, b))))
          = \<lparr>cod_producto = [], descripcion = [], linea_id = Str [], segmento_id = Str [],
             marca = [], referencia_producto = [],
             precio_venta1 = Num 0, precio_venta2 = Num 0, precio_venta3 = Num 0,
             costo_producto = Num 0, existencia = Num 0, activo = True\<rparr>)
   \<and> (res2 = Response True (Some ps) \<longrightarrow>
        products (fst (snd (saveProduct (Response True js) res2 (v, b)))) = ps)
   \<and> events (snd (snd (deactivateProduct p (Response k js) res2 (v, b))))
     = events b @ [Fetch (deactivate_request p (getItem ''token'' b)),
                   Fetch (products_request (includeInactive v) (getItem ''token'' b))]
   \<and> form (fst (snd (deactivateProduct p (Response k js) res2 (v, b)))) = form v
   \<and> isEditing (fst (snd (deactivateProduct p (Response k js) res2 (v, b)))) = isEditing v
   \<and> editingId (fst (snd (deactivateProduct p (Response k js) res2 (v, b)))) = editingId v
   \<and> (res2 = Response True (Some ps) \<longrightarrow>
        products (fst (snd (deactivateProduct p (Response k js) res2 (v, b)))) = ps)"
  by (simp add: saveProduct_def deactivateProduct_def fetchProducts_def settles_def resetForm_def
      empty_form_def browser_defs Let_def split: fetch_result.split option.split)


theorem mutation_refetch_witness:
  "settles (Response True (Some [pantalon]))
   \<and> isEditing (editProduct camisa inventory_data)
   \<and> isEditing (fst (snd (saveProduct (Response True None) (Response True (Some [pantalon]))
        (editProduct camisa inventory_data, stored_browser)))) = False
   \<and> form (fst (snd (saveProduct (Response True None) (Response True (Some [pantalon]))
        (editProduct camisa inventory_data, stored_browser)))) = empty_form
   \<and> products (fst (snd (saveProduct (Response True None) (Response True (Some [pantalon]))
        (editProduct camisa inventory_data, stored_browser)))) = [pantalon]
   \<and> products (fst (snd (deactivateProduct camisa (Response True None) (Response True (Some [pantalon]))
        (editProduct camisa inventory_data, stored_browser)))) = [pantalon]
   \<and> isEditing (fst (snd (deactivateProduct camisa (Response True None) (Response True (Some [pantalon]))
        (editProduct camisa inventory_data, stored_browser))))"
proof -
  have s: "settles (Response True (Some [pantalon]))" by (simp add: settles_def)
  have e: "isEditing (editProduct camisa inventory_data)" by (simp add: editProduct_def)
  from mutation_refetch [where js = None and ?res2.0 = "Response True (Some [pantalon])"
      and ps = "[pantalon]" and v = "editProduct camisa inventory_data" and b = stored_browser
      and p = camisa and k = True]
  show ?thesis using s e by (simp add: empty_form_def)
qed


text \<open>
  C4 as stated fails twice. A product is being edited; a successful deactivation
  leaves the view in edit mode with the form filled; and a successful update whose
  refetch fails on the network leaves it so too.
\<close>

theorem mutation_refetch_counterexample:
  "isEditing (fst (snd (deactivateProduct camisa (Response True None) (Response True (Some [camisa]))
        (editProduct camisa inventory_data, stored_browser))))
   \<and> form (fst (snd (deactivateProduct camisa (Response True None) (Response True (Some [camisa]))
        (editProduct camisa inventory_data, stored_browser)))) \<noteq> empty_form
   \<and> isEditing (fst (snd (saveProduct (Response True None) Network_failure
        (editProduct camisa inventory_data, stored_browser))))
   \<and> form (fst (snd (saveProduct (Response True None) Network_failure
        (editProduct camisa inventory_data, stored_browser)))) \<noteq> empty_form"
  by (simp add: saveProduct_def deactivateProduct_def fetchProducts_def editProduct_def
      empty_form_def camisa_def browser_defs Let_def)


text \<open>
  C8. A response that is not \<^verbatim>\<open>ok\<close> to the request of \<^verbatim>\<open>saveProduct\<close>, \<^verbatim>\<open>saveLinea\<close> or
  \<^verbatim>\<open>saveSegmento\<close> ends the method there: it resolves, the data of the view is what it
  was, and the request is the only event. After such a response \<^verbatim>\<open>deactivateProduct\<close>
  goes on to request the product list: nothing but \<open>products\<close> can differ in the data of
  the view, the storage is untouched, and the two requests are the only events. So no
  message is shown, there is no navigation, and the forms and the mode are unchanged.
\<close>

theorem mutation_failure_ignored:
  "saveProduct (Response False js) res2 (v, b)
     = (Resolved, v, fetch (save_request v (getItem ''token'' b)) b)
   \<and> saveLinea (Response False js) res3 (v, b)
     = (Resolved, v, fetch (linea_request v (getItem ''token'' b)) b)
   \<and> saveSegmento (Response False js) res3 (v, b)
     = (Resolved, v, fetch (segmento_request v (getItem ''token'' b)) b)
   \<and> fst (snd (deactivateProduct p (Response False js) res2 (v, b)))
     = v\<lparr>products := products (fst (snd (deactivateProduct p (Response False js) res2 (v, b))))\<rparr>
   \<and> localStorage (snd (snd (deactivateProduct p (Response False js) res2 (v, b)))) = localStorage b
   \<and> events (snd (snd (deactivateProduct p (Response False js) res2 (v, b))))
     = events b @ [Fetch (deactivate_request p (getItem ''token'' b)),
                   Fetch (products_request (includeInactive v) (getItem ''token'' b))]"
  by (simp add: saveProduct_def saveLinea_def saveSegmento_def deactivateProduct_def
      fetchProducts_def browser_defs Let_def split: fetch_result.split option.split)


theorem mutation_failure_ignored_witness:
  "saveProduct (Response False None) Network_failure (editProduct camisa inventory_data, stored_browser)
     = (Resolved, editProduct camisa inventory_data,
        fetch (save_request (editProduct camisa inventory_data) (Some ''tok'')) stored_browser)
   \<and> events (snd (snd (deactivateProduct camisa (Response False None) (Response False None)
        (editProduct camisa inventory_data, stored_browser))))
     = [Fetch (deactivate_request camisa (Some ''tok'')), Fetch (products_request False (Some ''tok''))]"
  using mutation_failure_ignored [where js = None and ?res2.0 = Network_failure
      and v = "editProduct camisa inventory_data" and b = stored_browser]
    mutation_failure_ignored [where js = None and ?res2.0 = "Response False None" and p = camisa
      and v = "editProduct camisa inventory_data" and b = stored_browser]
  by (simp add: getItem_def stored_browser_def editProduct_def inventory_data_def)


subsection \<open>Product reconciler: the search filter\<close>

lemma str_includes_sublist: "str_includes hay needle \<longleftrightarrow> sublist needle hay"
  by (induction hay) (simp_all add: sublist_Cons_right)

lemma of_char_space: "(of_char d :: nat) = 32 \<longleftrightarrow> d = CHR '' ''"
proof -
  have "(of_char (CHR '' '') :: nat) = 32" by simp
  then show ?thesis by (metis of_char_eq_iff)
qed

lemma lower_char_space: "lower_char c = CHR '' '' \<longleftrightarrow> c = CHR '' ''"
proof -
  have "(of_char (lower_char c) :: nat) = 32 \<longleftrightarrow> (of_char c :: nat) = 32"
    by (simp add: lower_char_def Let_def)
  then show ?thesis by (simp add: of_char_space)
qed

lemma toLowerCase_join:
  "toLowerCase (join '' '' xs) = join '' '' (map toLowerCase xs)"
  by (induction "'' ''" xs rule: join.induct) (simp_all add: toLowerCase_def lower_char_def)

lemma toLowerCase_Nil: "toLowerCase s = [] \<longleftrightarrow> s = []"
  by (simp add: toLowerCase_def)

lemma space_toLowerCase: "CHR '' '' \<in> set (toLowerCase s) \<longleftrightarrow> CHR '' '' \<in> set s"
proof -
  have "CHR '' '' = lower_char c \<longleftrightarrow> c = CHR '' ''" for c
    using lower_char_space [of c] by auto
  then show ?thesis
    by (induction s) (auto simp: toLowerCase_def)
qed

lemma sublist_around_space:
  assumes "CHR '' '' \<notin> set q"
  shows "sublist q (a @ '' '' @ b) \<longleftrightarrow> sublist q a \<or> sublist q b"
proof
  assume "sublist q (a @ '' '' @ b)"
  then consider "sublist q a" | "sublist q ('' '' @ b)"
    | xs1 xs2 where "q = xs1 @ xs2" "suffix xs1 a" "prefix xs2 ('' '' @ b)"
    by (auto simp: sublist_append)
  then show "sublist q a \<or> sublist q b"
  proof cases
    case 1 then show ?thesis by simp
  next
    case 2
    then have "prefix q (CHR '' '' # b) \<or> sublist q b" by (simp add: sublist_Cons_right)
    moreover have "prefix q (CHR '' '' # b) \<Longrightarrow> q = []"
      using assms by (cases q) auto
    ultimately show ?thesis by auto
  next
    case 3
    have "xs2 = []" using 3(1,3) assms by (cases xs2) auto
    with 3 show ?thesis by auto
  qed
next
  assume "sublist q a \<or> sublist q b"
  then show "sublist q (a @ '' '' @ b)"
    by (auto simp: sublist_append sublist_Cons_right)
qed

lemma sublist_join:
  assumes "q \<noteq> []" and "CHR '' '' \<notin> set q"
  shows "sublist q (join '' '' xs) \<longleftrightarrow> (\<exists>x\<in>set xs. sublist q x)"
  using assms
proof (induction "'' ''" xs rule: join.induct)
  case 1 then show ?case by simp
next
  case (2 x) then show ?case by simp
next
  case (3 x y ys)
  then show ?case using sublist_around_space [of q x "join '' '' (y # ys)"] by auto
qed

lemma sublist_join_field:
  "x \<in> set xs \<Longrightarrow> sublist q x \<Longrightarrow> sublist q (join '' '' xs)"
proof (induction "'' ''" xs rule: join.induct)
  case 1 then show ?case by simp
next
  case (2 y) then show ?case by simp
next
  case (3 y z zs)
  then show ?case by (auto simp: sublist_append sublist_Cons_right)
qed

lemma trim_Nil: "trim s = [] \<longleftrightarrow> (\<forall>c\<in>set s. white_space c)"
proof -
  have "trim s = [] \<longleftrightarrow> (\<forall>c\<in>set (dropWhile white_space s). white_space c)"
    by (simp add: trim_def)
  also have "\<dots> \<longleftrightarrow> dropWhile white_space s = []"
  proof (cases "dropWhile white_space s")
    case Nil
    show ?thesis unfolding Nil by simp
  next
    case (Cons c cs)
    then have "\<not> white_space c"
      using hd_dropWhile [of white_space s] by simp
    show ?thesis unfolding Cons using \<open>\<not> white_space c\<close> by simp
  qed
  also have "\<dots> \<longleftrightarrow> (\<forall>c\<in>set s. white_space c)"
    by simp
  finally show ?thesis .
qed


lemma filteredProducts_joined:
  "filteredProducts v =
     (if trim (search v) = [] then products v
      else filter (\<lambda>p. sublist (toLowerCase (trim (search v))) (toLowerCase (joined_fields p)))
             (products v))"
  by (simp add: filteredProducts_def joined_fields_def str_includes_sublist toLowerCase_Nil Let_def)

lemma joined_contains_iff:
  assumes "q \<noteq> []" and "CHR '' '' \<notin> set q"
  shows "sublist (toLowerCase q) (toLowerCase (joined_fields p)) \<longleftrightarrow> some_field_contains q p"
proof -
  have "toLowerCase q \<noteq> []" and "CHR '' '' \<notin> set (toLowerCase q)"
    using assms by (simp_all add: toLowerCase_Nil space_toLowerCase)
  then show ?thesis
    by (simp add: joined_fields_def some_field_contains_def toLowerCase_join sublist_join
        list_ex_iff)
qed

lemma field_contains_joined:
  "some_field_contains q p \<Longrightarrow> sublist (toLowerCase q) (toLowerCase (joined_fields p))"
  by (auto simp: joined_fields_def some_field_contains_def toLowerCase_join list_ex_iff
      intro!: sublist_join_field)


text \<open>
  C7, as amended. A query that is empty or white space only gives the whole list. Any
  other query gives exactly the products whose joined text (the non-empty code,
  description, line name, segment name and brand, with single spaces between) contains
  the trimmed query, case not counting, so the empty list when no joined text does. When the trimmed query has no space, these are
  exactly the products one of whose fields contains it. For every query, a product one
  of whose fields contains it is in the result, and the result is drawn from the stored
  list. The filter is a function of the data of the view alone: it takes no browser and
  returns no view.
\<close>

theorem filteredProducts_spec:
  "(list_all white_space (search v) \<longrightarrow> filteredProducts v = products v)
   \<and> (\<not> list_all white_space (search v) \<longrightarrow>
        filteredProducts v
        = filter (\<lambda>p. sublist (toLowerCase (trim (search v))) (toLowerCase (joined_fields p)))
            (products v))
   \<and> (\<not> list_all white_space (search v) \<and> CHR '' '' \<notin> set (trim (search v)) \<longrightarrow>
        filteredProducts v = filter (some_field_contains (trim (search v))) (products v))
   \<and> (\<forall>p\<in>set (products v). some_field_contains (trim (search v)) p \<longrightarrow> p \<in> set (filteredProducts v))
   \<and> (\<not> list_all white_space (search v)
        \<and> (\<forall>p\<in>set (products v).
              \<not> sublist (toLowerCase (trim (search v))) (toLowerCase (joined_fields p))) \<longrightarrow>
        filteredProducts v = [])
   \<and> set (filteredProducts v) \<subseteq> set (products v)"
proof -
  have blank: "list_all white_space (search v) \<longleftrightarrow> trim (search v) = []"
    by (simp add: trim_Nil list_all_iff)
  show ?thesis
    by (auto simp: blank filteredProducts_joined joined_contains_iff field_contains_joined)
qed


theorem filteredProducts_spec_witness:
  "\<not> list_all white_space '' A ''
   \<and> CHR '' '' \<notin> set (trim '' A '')
   \<and> some_field_contains (trim '' A '') camisa
   \<and> filteredProducts (inventory_data\<lparr>products := [camisa, pantalon], search := '' A ''\<rparr>) = [camisa]
   \<and> list_all white_space ''  ''
   \<and> filteredProducts (inventory_data\<lparr>products := [camisa, pantalon], search := ''  ''\<rparr>) = [camisa, pantalon]
   \<and> \<not> list_all white_space ''zz''
   \<and> filteredProducts (inventory_data\<lparr>products := [camisa, pantalon], search := ''zz''\<rparr>) = []"
proof -
  let ?z = "inventory_data\<lparr>products := [camisa, pantalon], search := ''zz''\<rparr>"
  have h: "\<not> list_all white_space ''zz''" by code_simp
  have i: "\<not> sublist (toLowerCase (trim ''zz'')) (toLowerCase (joined_fields camisa))" by code_simp
  have j: "\<not> sublist (toLowerCase (trim ''zz'')) (toLowerCase (joined_fields pantalon))" by code_simp
  have "\<not> list_all white_space (search ?z)"
    and "\<forall>p\<in>set (products ?z). \<not> sublist (toLowerCase (trim (search ?z))) (toLowerCase (joined_fields p))"
    using h i j by simp_all
  with filteredProducts_spec [where v = ?z]
  have z: "filteredProducts ?z = []"
    by blast
  let ?v = "inventory_data\<lparr>products := [camisa, pantalon], search := '' A ''\<rparr>"
  let ?w = "inventory_data\<lparr>products := [camisa, pantalon], search := ''  ''\<rparr>"
  have a: "\<not> list_all white_space '' A ''" by code_simp
  have b: "CHR '' '' \<notin> set (trim '' A '')" by code_simp
  have c: "some_field_contains (trim '' A '') camisa" by code_simp
  have d: "\<not> some_field_contains (trim '' A '') pantalon" by code_simp
  have e: "list_all white_space ''  ''" by code_simp
  have "\<not> list_all white_space (search ?v)" and "CHR '' '' \<notin> set (trim (search ?v))"
    using a b by simp_all
  with filteredProducts_spec [where v = ?v]
  have "filteredProducts ?v = filter (some_field_contains (trim (search ?v))) (products ?v)"
    by blast
  also have "\<dots> = [camisa]"
    using c d by simp
  finally have f: "filteredProducts ?v = [camisa]" .
  have "list_all white_space (search ?w)"
    using e by simp
  with filteredProducts_spec [where v = ?w]
  have "filteredProducts ?w = products ?w"
    by blast
  then have g: "filteredProducts ?w = [camisa, pantalon]"
    by simp
  show ?thesis using a b c e f g h z by blast
qed

text \<open>
  C7 as stated fails for a query with a space: \<^verbatim>\<open>a b\<close> is in no field of the product
  with code \<^verbatim>\<open>a\<close> and description \<^verbatim>\<open>b\<close>, and the filter returns that product.
\<close>

theorem filteredProducts_counterexample:
  "filteredProducts (inventory_data\<lparr>products := [camisa], search := ''a b''\<rparr>) = [camisa]
   \<and> filter (some_field_contains (trim (search (inventory_data\<lparr>products := [camisa], search := ''a b''\<rparr>))))
        (products (inventory_data\<lparr>products := [camisa], search := ''a b''\<rparr>)) = []"
  by code_simp

end
